theory Spec2Isabelle
  imports Main "HOL-Library.Word"
begin

section \<open>Python values and exceptions\<close>

text \<open>
  The marshaller modules \<^verbatim>\<open>bleak/backends/marshall2904.py\<close> and
  \<^verbatim>\<open>bleak/backends/characteristic.py\<close> are dynamically typed: a value handed to
  \<^verbatim>\<open>marshall\<close> is declared \<^verbatim>\<open>Any\<close>. The embedding carries the kinds of value
  the format table speaks about (booleans, unbounded integers, floats, text, byte strings)
  together with \<^verbatim>\<open>None\<close> and tuples (the result of \<^verbatim>\<open>struct.unpack\<close>).

  \<^item> a byte string is a list of 8-bit words;
  \<^item> a \<^verbatim>\<open>str\<close> is the list of its code points;
  \<^item> a \<^verbatim>\<open>float\<close> is its IEEE-754 binary64 bit pattern.

  An exception is a value of type \<open>error\<close>; a computation that may raise returns
  \<open>error + 'a\<close> with \<open>Inl\<close> for the exception. The interpreter is 64-bit CPython on a
  little-endian host.
\<close>

type_synonym byte = "8 word"

datatype pyval =
    PyNone
  | PyBool bool
  | PyInt int
  | PyFloat "64 word"
  | PyStr "nat list"
  | PyBytes "byte list"
  | PyTuple "pyval list"

datatype error =
    NameError
  | TypeError
  | ValueError
  | AttributeError
  | OverflowError
  | ZeroDivisionError
  | AssertionError
  | StructError
  | UnicodeEncodeError
  | UnicodeDecodeError
  | MemoryError

text \<open>Truth value testing (\<^verbatim>\<open>bool(x)\<close>, \<^verbatim>\<open>if x:\<close>, \<^verbatim>\<open>not x\<close>).\<close>

fun truthy :: "pyval \<Rightarrow> bool" where
  "truthy PyNone = False"
| "truthy (PyBool b) = b"
| "truthy (PyInt n) = (n \<noteq> 0)"
| "truthy (PyFloat w) = (unat w mod 2 ^ 63 \<noteq> 0)"
| "truthy (PyStr s) = (s \<noteq> [])"
| "truthy (PyBytes bs) = (bs \<noteq> [])"
| "truthy (PyTuple vs) = (vs \<noteq> [])"

section \<open>Little-endian integers\<close>

fun le_val :: "byte list \<Rightarrow> nat" where
  "le_val [] = 0"
| "le_val (b # bs) = unat b + 256 * le_val bs"

fun le_bytes :: "nat \<Rightarrow> nat \<Rightarrow> byte list" where
  "le_bytes 0 n = []"
| "le_bytes (Suc k) n = word_of_nat (n mod 256) # le_bytes k (n div 256)"

definition le_signed :: "byte list \<Rightarrow> int" where
  "le_signed bs =
     (let v = le_val bs; k = length bs
      in if k \<noteq> 0 \<and> 2 ^ (8 * k - 1) \<le> v then int v - 2 ^ (8 * k) else int v)"

section \<open>IEEE-754 arithmetic\<close>

text \<open>
  Python's \<^verbatim>\<open>float\<close> is the C \<^verbatim>\<open>double\<close>: IEEE-754 binary64 with round-to-nearest,
  ties-to-even. A finite float is \<open>(-1)^s * m * 2^e\<close>; rounding works on the exact
  quotient of two naturals. \<open>fp_round p emin n d\<close> is the pair \<open>(m, e)\<close> nearest to
  \<open>n / d\<close> with \<open>m < 2^p\<close> and \<open>e \<ge> emin\<close> (gradual underflow at \<open>emin\<close>).
\<close>

fun bitlen_nat :: "nat \<Rightarrow> nat" where
  "bitlen_nat n = (if n = 0 then 0 else Suc (bitlen_nat (n div 2)))"

declare bitlen_nat.simps [simp del]

definition scale2 :: "nat \<Rightarrow> nat \<Rightarrow> int \<Rightarrow> nat \<times> nat" where
  "scale2 n d e = (if 0 \<le> e then (n, d * 2 ^ nat e) else (n * 2 ^ nat (- e), d))"

definition round_half_even :: "nat \<times> nat \<Rightarrow> nat" where
  "round_half_even nd =
     (case nd of (n, d) \<Rightarrow>
        let q = n div d; r = n mod d
        in if 2 * r < d then q
           else if d < 2 * r then q + 1
           else if even q then q else q + 1)"

definition fp_round :: "nat \<Rightarrow> int \<Rightarrow> nat \<Rightarrow> nat \<Rightarrow> nat \<times> int" where
  "fp_round p emin n d =
     (let b = int (bitlen_nat n) - int (bitlen_nat d);
          fl = (case scale2 n d b of (n', d') \<Rightarrow> if d' \<le> n' then b else b - 1);
          e = max (fl - (int p - 1)) emin;
          m = round_half_even (scale2 n d e)
      in if m = 2 ^ p then (2 ^ (p - 1), e + 1) else (m, e))"

datatype fclass = FNaN | FInf bool | FFin bool nat int

definition f64_decode :: "64 word \<Rightarrow> fclass" where
  "f64_decode w =
     (let s = (2 ^ 63 \<le> unat w);
          E = unat w div 2 ^ 52 mod 2048;
          F = unat w mod 2 ^ 52
      in if E = 2047 then (if F = 0 then FInf s else FNaN)
         else if E = 0 then FFin s F (- 1074)
         else FFin s (2 ^ 52 + F) (int E - 1075))"

definition f64_bits :: "bool \<Rightarrow> nat \<Rightarrow> nat \<Rightarrow> 64 word" where
  "f64_bits s E F = word_of_nat ((if s then 2 ^ 63 else 0) + E * 2 ^ 52 + F)"

definition f64_inf :: "bool \<Rightarrow> 64 word" where
  "f64_inf s = f64_bits s 2047 0"

definition f64_quiet :: "64 word \<Rightarrow> 64 word" where
  "f64_quiet w = (if unat w div 2 ^ 51 mod 2 = 0 then w + 2 ^ 51 else w)"

definition f64_default_nan :: "64 word" where
  "f64_default_nan = f64_bits True 2047 (2 ^ 51)"

text \<open>
  \<open>f64_round s n d\<close> is the float nearest to \<open>(-1)^s * n / d\<close>, or \<open>None\<close> when the
  rounded magnitude is beyond the largest finite float.
\<close>

definition f64_round :: "bool \<Rightarrow> nat \<Rightarrow> nat \<Rightarrow> 64 word option" where
  "f64_round s n d =
     (if n = 0 then Some (f64_bits s 0 0)
      else case fp_round 53 (- 1074) n d of (m, e) \<Rightarrow>
        if 971 < e then None
        else if m < 2 ^ 52 then Some (f64_bits s 0 m)
        else Some (f64_bits s (nat (e + 1075)) (m - 2 ^ 52)))"

definition float_of_int :: "int \<Rightarrow> 64 word option" where
  "float_of_int n = f64_round (n < 0) (nat \<bar>n\<bar>) 1"

definition float_mul :: "64 word \<Rightarrow> 64 word \<Rightarrow> 64 word" where
  "float_mul a b =
     (case (f64_decode a, f64_decode b) of
        (FNaN, _) \<Rightarrow> f64_quiet a
      | (_, FNaN) \<Rightarrow> f64_quiet b
      | (FInf s, FInf t) \<Rightarrow> f64_inf (s \<noteq> t)
      | (FInf s, FFin t m e) \<Rightarrow> if m = 0 then f64_default_nan else f64_inf (s \<noteq> t)
      | (FFin s m e, FInf t) \<Rightarrow> if m = 0 then f64_default_nan else f64_inf (s \<noteq> t)
      | (FFin s m e, FFin t m' e') \<Rightarrow>
          (case scale2 (m * m') 1 (- (e + e')) of (n, d) \<Rightarrow>
             (case f64_round (s \<noteq> t) n d of None \<Rightarrow> f64_inf (s \<noteq> t) | Some w \<Rightarrow> w)))"

text \<open>Float division; Python raises \<^verbatim>\<open>ZeroDivisionError\<close> where IEEE gives an infinity.\<close>

definition float_div :: "64 word \<Rightarrow> 64 word \<Rightarrow> error + 64 word" where
  "float_div a b =
     (case (f64_decode a, f64_decode b) of
        (_, FFin t 0 e') \<Rightarrow> Inl ZeroDivisionError
      | (FNaN, _) \<Rightarrow> Inr (f64_quiet a)
      | (_, FNaN) \<Rightarrow> Inr (f64_quiet b)
      | (FInf s, FInf t) \<Rightarrow> Inr f64_default_nan
      | (FInf s, FFin t m e) \<Rightarrow> Inr (f64_inf (s \<noteq> t))
      | (FFin s m e, FInf t) \<Rightarrow> Inr (f64_bits (s \<noteq> t) 0 0)
      | (FFin s m e, FFin t m' e') \<Rightarrow>
          (case scale2 m m' (e' - e) of (n, d) \<Rightarrow>
             (case f64_round (s \<noteq> t) n d of None \<Rightarrow> Inr (f64_inf (s \<noteq> t)) | Some w \<Rightarrow> Inr w)))"

text \<open>\<^verbatim>\<open>a / b\<close> on two integers: the correctly rounded quotient.\<close>

definition int_truediv :: "int \<Rightarrow> int \<Rightarrow> error + 64 word" where
  "int_truediv a b =
     (if b = 0 then Inl ZeroDivisionError
      else case f64_round ((a < 0) \<noteq> (b < 0)) (nat \<bar>a\<bar>) (nat \<bar>b\<bar>) of
             None \<Rightarrow> Inl OverflowError
           | Some w \<Rightarrow> Inr w)"

text \<open>\<^verbatim>\<open>int(x)\<close> on a float: truncation towards zero.\<close>

definition float_trunc :: "64 word \<Rightarrow> error + int" where
  "float_trunc w =
     (case f64_decode w of
        FNaN \<Rightarrow> Inl ValueError
      | FInf s \<Rightarrow> Inl OverflowError
      | FFin s m e \<Rightarrow>
          (let a = (if 0 \<le> e then m * 2 ^ nat e else m div 2 ^ nat (- e))
           in Inr (if s then - int a else int a)))"

text \<open>
  Binary32, for the \<^verbatim>\<open>f\<close> format of \<^verbatim>\<open>struct\<close>: unpacking widens the four bytes to a
  \<^verbatim>\<open>double\<close> (exact; a signalling NaN comes out quiet), packing narrows with rounding and
  raises \<^verbatim>\<open>OverflowError\<close> when a finite value does not fit.
\<close>

definition f32_bits :: "bool \<Rightarrow> nat \<Rightarrow> nat \<Rightarrow> 32 word" where
  "f32_bits s E F = word_of_nat ((if s then 2 ^ 31 else 0) + E * 2 ^ 23 + F)"

definition f32_to_f64 :: "32 word \<Rightarrow> 64 word" where
  "f32_to_f64 w =
     (let s = (2 ^ 31 \<le> unat w);
          E = unat w div 2 ^ 23 mod 256;
          F = unat w mod 2 ^ 23
      in if E = 255 then (if F = 0 then f64_inf s else f64_quiet (f64_bits s 2047 (F * 2 ^ 29)))
         else if E = 0 then (case f64_round s F (2 ^ 149) of None \<Rightarrow> f64_inf s | Some x \<Rightarrow> x)
         else f64_bits s (E + 896) (F * 2 ^ 29))"

definition f64_to_f32 :: "64 word \<Rightarrow> 32 word option" where
  "f64_to_f32 w =
     (case f64_decode w of
        FNaN \<Rightarrow>
          Some (f32_bits (2 ^ 63 \<le> unat w) 255 (2 ^ 22 + unat w mod 2 ^ 51 div 2 ^ 29))
      | FInf s \<Rightarrow> Some (f32_bits s 255 0)
      | FFin s m e \<Rightarrow>
          if m = 0 then Some (f32_bits s 0 0)
          else (case scale2 m 1 (- e) of (n, d) \<Rightarrow>
                 (case fp_round 24 (- 149) n d of (m', e') \<Rightarrow>
                    if 104 < e' then None
                    else if m' < 2 ^ 23 then Some (f32_bits s 0 m')
                    else Some (f32_bits s (nat (e' + 150)) (m' - 2 ^ 23)))))"

section \<open>What the runtime provides\<close>

text \<open>
  Some behaviour of the interpreter and its library is not defined here but passed in:
  \<^item> \<open>pow10 e\<close> is \<^verbatim>\<open>10.0 ** e\<close> for an integer \<open>e\<close>, which CPython computes with the C
    library's \<^verbatim>\<open>pow\<close> (not always the correctly rounded power);
  \<^item> \<open>int_of_str\<close> and \<open>int_of_bytes\<close> are \<^verbatim>\<open>int(x)\<close> for a \<^verbatim>\<open>str\<close> and for a byte string
    (numeral parsing: \<^verbatim>\<open>int('12')\<close> is 12, \<^verbatim>\<open>int('ab')\<close> raises \<^verbatim>\<open>ValueError\<close>);
  \<^item> \<open>float_of_str\<close> and \<open>float_of_bytes\<close> are \<^verbatim>\<open>float(x)\<close> likewise;
  \<^item> \<open>can_allocate k\<close> says whether memory allows a new sequence of \<open>k\<close> items. It is
    asked where the caller's number sets the size of the new object, in \<^verbatim>\<open>bytes(n)\<close> and in
    \<^verbatim>\<open>s * n\<close>, which raise \<^verbatim>\<open>MemoryError\<close> when it does not; every other allocation is
    taken to succeed.
  Every function that may reach one of them takes the runtime as its first argument, and
  every statement about such a function holds for any runtime.
\<close>

record runtime =
  pow10 :: "int \<Rightarrow> error + 64 word"
  int_of_str :: "nat list \<Rightarrow> error + int"
  int_of_bytes :: "byte list \<Rightarrow> error + int"
  float_of_str :: "nat list \<Rightarrow> error + 64 word"
  float_of_bytes :: "byte list \<Rightarrow> error + 64 word"
  can_allocate :: "nat \<Rightarrow> bool"

section \<open>Builtin conversions and operators\<close>

text \<open>\<^verbatim>\<open>bool\<close> is a subclass of \<^verbatim>\<open>int\<close>: wherever an integer is expected, a boolean is one.\<close>

fun as_int :: "pyval \<Rightarrow> int option" where
  "as_int (PyBool b) = Some (if b then 1 else 0)"
| "as_int (PyInt n) = Some n"
| "as_int _ = None"

text \<open>\<^verbatim>\<open>int(x)\<close>.\<close>

fun py_int :: "runtime \<Rightarrow> pyval \<Rightarrow> error + pyval" where
  "py_int rt (PyBool b) = Inr (PyInt (if b then 1 else 0))"
| "py_int rt (PyInt n) = Inr (PyInt n)"
| "py_int rt (PyFloat w) = (case float_trunc w of Inl e \<Rightarrow> Inl e | Inr n \<Rightarrow> Inr (PyInt n))"
| "py_int rt (PyStr s) = (case int_of_str rt s of Inl e \<Rightarrow> Inl e | Inr n \<Rightarrow> Inr (PyInt n))"
| "py_int rt (PyBytes bs) = (case int_of_bytes rt bs of Inl e \<Rightarrow> Inl e | Inr n \<Rightarrow> Inr (PyInt n))"
| "py_int rt PyNone = Inl TypeError"
| "py_int rt (PyTuple vs) = Inl TypeError"

text \<open>\<^verbatim>\<open>float(x)\<close>.\<close>

fun py_float :: "runtime \<Rightarrow> pyval \<Rightarrow> error + pyval" where
  "py_float rt (PyFloat w) = Inr (PyFloat w)"
| "py_float rt (PyBool b) = Inr (PyFloat (if b then f64_bits False 1023 0 else 0))"
| "py_float rt (PyInt n) =
     (case float_of_int n of None \<Rightarrow> Inl OverflowError | Some w \<Rightarrow> Inr (PyFloat w))"
| "py_float rt (PyStr s) =
     (case float_of_str rt s of Inl e \<Rightarrow> Inl e | Inr w \<Rightarrow> Inr (PyFloat w))"
| "py_float rt (PyBytes bs) =
     (case float_of_bytes rt bs of Inl e \<Rightarrow> Inl e | Inr w \<Rightarrow> Inr (PyFloat w))"
| "py_float rt PyNone = Inl TypeError"
| "py_float rt (PyTuple vs) = Inl TypeError"

text \<open>
  \<^verbatim>\<open>bytes(x)\<close>: a byte string is returned as it is, an integer \<open>n\<close> gives \<open>n\<close> zero
  bytes (a negative one raises \<^verbatim>\<open>ValueError\<close>), a tuple of integers in
  \<^verbatim>\<open>range(0, 256)\<close> gives those bytes. The interpreter refuses a length it cannot
  represent: \<^verbatim>\<open>bytes(n)\<close> raises \<^verbatim>\<open>OverflowError\<close> when \<open>n\<close> is not a signed
  64-bit number (above \<^verbatim>\<open>sys.maxsize\<close>, which is \<open>2^63 - 1\<close>, or below \<open>- 2^63\<close>), and
  also when \<open>n\<close> bytes and the 33 bytes of the object's header are together above
  \<^verbatim>\<open>sys.maxsize\<close>, that is from \<open>n = 2^63 - 33\<close> on. Below that, \<^verbatim>\<open>MemoryError\<close> is
  raised when the memory for \<open>n\<close> bytes is not there.
\<close>

definition sys_maxsize :: int where
  "sys_maxsize = 2 ^ 63 - 1"

definition bytes_header :: int where
  "bytes_header = 33"

definition index_sized :: "int \<Rightarrow> bool" where
  "index_sized n = (- sys_maxsize - 1 \<le> n \<and> n \<le> sys_maxsize)"

fun bytes_of_items :: "pyval list \<Rightarrow> error + byte list" where
  "bytes_of_items [] = Inr []"
| "bytes_of_items (v # vs) =
     (case as_int v of
        None \<Rightarrow> Inl TypeError
      | Some n \<Rightarrow>
          if n < 0 \<or> 256 \<le> n then Inl ValueError
          else (case bytes_of_items vs of
                  Inl e \<Rightarrow> Inl e
                | Inr bs \<Rightarrow> Inr (word_of_int n # bs)))"

definition bytes_of_count :: "runtime \<Rightarrow> int \<Rightarrow> error + pyval" where
  "bytes_of_count rt n =
     (if \<not> index_sized n then Inl OverflowError
      else if n < 0 then Inl ValueError
      else if sys_maxsize - bytes_header < n then Inl OverflowError
      else if \<not> can_allocate rt (nat n) then Inl MemoryError
      else Inr (PyBytes (replicate (nat n) 0)))"

fun py_bytes :: "runtime \<Rightarrow> pyval \<Rightarrow> error + pyval" where
  "py_bytes rt (PyBytes bs) = Inr (PyBytes bs)"
| "py_bytes rt (PyInt n) = bytes_of_count rt n"
| "py_bytes rt (PyBool b) = bytes_of_count rt (if b then 1 else 0)"
| "py_bytes rt (PyTuple vs) =
     (case bytes_of_items vs of Inl e \<Rightarrow> Inl e | Inr bs \<Rightarrow> Inr (PyBytes bs))"
| "py_bytes rt (PyStr s) = Inl TypeError"
| "py_bytes rt (PyFloat w) = Inl TypeError"
| "py_bytes rt PyNone = Inl TypeError"

text \<open>
  Sequence repetition, \<^verbatim>\<open>s * n\<close>: empty for \<open>n \<le> 0\<close>. A count that is not a signed
  64-bit number raises \<^verbatim>\<open>OverflowError\<close>; so does a \<^verbatim>\<open>str\<close> or byte string whose
  repeated length would be above \<^verbatim>\<open>sys.maxsize\<close>, where a tuple raises \<^verbatim>\<open>MemoryError\<close>
  (\<open>too_long\<close> is that error). Below that length \<^verbatim>\<open>MemoryError\<close> is raised when the
  memory for the result is not there.
\<close>

definition repeat :: "runtime \<Rightarrow> error \<Rightarrow> int \<Rightarrow> 'a list \<Rightarrow> error + 'a list" where
  "repeat rt too_long n xs =
     (if \<not> index_sized n then Inl OverflowError
      else if n \<le> 0 \<or> xs = [] then Inr []
      else if sys_maxsize < int (length xs) * n then Inl too_long
      else if \<not> can_allocate rt (length xs * nat n) then Inl MemoryError
      else Inr (concat (replicate (nat n) xs)))"

definition py_repeat :: "runtime \<Rightarrow> int \<Rightarrow> pyval \<Rightarrow> error + pyval" where
  "py_repeat rt n v =
     (case v of
        PyStr s \<Rightarrow>
          (case repeat rt OverflowError n s of Inl e \<Rightarrow> Inl e | Inr r \<Rightarrow> Inr (PyStr r))
      | PyBytes bs \<Rightarrow>
          (case repeat rt OverflowError n bs of Inl e \<Rightarrow> Inl e | Inr r \<Rightarrow> Inr (PyBytes r))
      | PyTuple vs \<Rightarrow>
          (case repeat rt MemoryError n vs of Inl e \<Rightarrow> Inl e | Inr r \<Rightarrow> Inr (PyTuple r))
      | _ \<Rightarrow> Inl TypeError)"

definition float_operand :: "pyval \<Rightarrow> (error + 64 word) option" where
  "float_operand v =
     (case v of
        PyFloat w \<Rightarrow> Some (Inr w)
      | _ \<Rightarrow> (case as_int v of
                None \<Rightarrow> None
              | Some n \<Rightarrow> (case float_of_int n of
                            None \<Rightarrow> Some (Inl OverflowError)
                          | Some w \<Rightarrow> Some (Inr w))))"

text \<open>
  \<^verbatim>\<open>a * b\<close>: exact on two integers, float multiplication when a float is involved (the
  integer operand is converted first), repetition for a sequence and an integer.
\<close>

definition py_mul :: "runtime \<Rightarrow> pyval \<Rightarrow> pyval \<Rightarrow> error + pyval" where
  "py_mul rt a b =
     (case (as_int a, as_int b) of
        (Some x, Some y) \<Rightarrow> Inr (PyInt (x * y))
      | (Some x, None) \<Rightarrow>
          (case b of
             PyFloat w \<Rightarrow>
               (case float_of_int x of
                  None \<Rightarrow> Inl OverflowError
                | Some u \<Rightarrow> Inr (PyFloat (float_mul u w)))
           | _ \<Rightarrow> py_repeat rt x b)
      | (None, Some y) \<Rightarrow>
          (case a of
             PyFloat w \<Rightarrow>
               (case float_of_int y of
                  None \<Rightarrow> Inl OverflowError
                | Some u \<Rightarrow> Inr (PyFloat (float_mul w u)))
           | _ \<Rightarrow> py_repeat rt y a)
      | (None, None) \<Rightarrow>
          (case (a, b) of
             (PyFloat u, PyFloat w) \<Rightarrow> Inr (PyFloat (float_mul u w))
           | _ \<Rightarrow> Inl TypeError))"

text \<open>\<^verbatim>\<open>a / b\<close>: true division, always a float.\<close>

definition py_truediv :: "pyval \<Rightarrow> pyval \<Rightarrow> error + pyval" where
  "py_truediv a b =
     (case (as_int a, as_int b) of
        (Some x, Some y) \<Rightarrow>
          (case int_truediv x y of Inl e \<Rightarrow> Inl e | Inr w \<Rightarrow> Inr (PyFloat w))
      | _ \<Rightarrow>
          (case (float_operand a, float_operand b) of
             (Some (Inr u), Some (Inr w)) \<Rightarrow>
               (case float_div u w of Inl e \<Rightarrow> Inl e | Inr r \<Rightarrow> Inr (PyFloat r))
           | (Some (Inl e), Some _) \<Rightarrow> Inl e
           | (Some (Inr u), Some (Inl e)) \<Rightarrow> Inl e
           | _ \<Rightarrow> Inl TypeError))"

section \<open>UTF-8\<close>

text \<open>
  \<^verbatim>\<open>s.encode('utf8')\<close> and \<^verbatim>\<open>b.decode('utf8')\<close> with the default strict error handling.
  A \<^verbatim>\<open>str\<close> holds code points below \<open>0x110000\<close>; the surrogates \<open>0xD800..0xDFFF\<close>
  cannot be encoded. The decoder accepts exactly the well-formed sequences: shortest form,
  no surrogates, nothing above \<open>0x10FFFF\<close>.
\<close>

definition byte_of :: "nat \<Rightarrow> byte" where
  "byte_of n = word_of_nat n"

definition utf8_encode_cp :: "nat \<Rightarrow> byte list option" where
  "utf8_encode_cp c =
     (if c < 0x80 then Some [byte_of c]
      else if c < 0x800 then Some [byte_of (0xC0 + c div 64), byte_of (0x80 + c mod 64)]
      else if c < 0x10000 then
        (if 0xD800 \<le> c \<and> c < 0xE000 then None
         else Some [byte_of (0xE0 + c div 4096), byte_of (0x80 + c div 64 mod 64),
                    byte_of (0x80 + c mod 64)])
      else if c < 0x110000 then
        Some [byte_of (0xF0 + c div 262144), byte_of (0x80 + c div 4096 mod 64),
              byte_of (0x80 + c div 64 mod 64), byte_of (0x80 + c mod 64)]
      else None)"

fun utf8_encode :: "nat list \<Rightarrow> error + byte list" where
  "utf8_encode [] = Inr []"
| "utf8_encode (c # cs) =
     (case utf8_encode_cp c of
        None \<Rightarrow> Inl UnicodeEncodeError
      | Some bs \<Rightarrow> (case utf8_encode cs of Inl e \<Rightarrow> Inl e | Inr rest \<Rightarrow> Inr (bs @ rest)))"

definition cont :: "byte \<Rightarrow> bool" where
  "cont b = (0x80 \<le> unat b \<and> unat b < 0xC0)"

definition decoded :: "nat \<Rightarrow> error + nat list \<Rightarrow> error + nat list" where
  "decoded c r = (case r of Inl e \<Rightarrow> Inl e | Inr cs \<Rightarrow> Inr (c # cs))"

text \<open>The first code point of a byte string and the bytes after it.\<close>

definition utf8_decode_cp :: "byte list \<Rightarrow> (nat \<times> byte list) option" where
  "utf8_decode_cp bs =
     (case bs of
        [] \<Rightarrow> None
      | b0 # r0 \<Rightarrow>
          let a = unat b0
          in if a < 0x80 then Some (a, r0)
             else if 0xC2 \<le> a \<and> a < 0xE0 then
               (case r0 of
                  b1 # r1 \<Rightarrow>
                    if cont b1 then Some ((a - 0xC0) * 64 + (unat b1 - 0x80), r1) else None
                | _ \<Rightarrow> None)
             else if 0xE0 \<le> a \<and> a < 0xF0 then
               (case r0 of
                  b1 # b2 # r2 \<Rightarrow>
                    if (if a = 0xE0 then 0xA0 else 0x80) \<le> unat b1
                         \<and> unat b1 < (if a = 0xED then 0xA0 else 0xC0) \<and> cont b2
                    then Some ((a - 0xE0) * 4096 + (unat b1 - 0x80) * 64 + (unat b2 - 0x80), r2)
                    else None
                | _ \<Rightarrow> None)
             else if 0xF0 \<le> a \<and> a < 0xF5 then
               (case r0 of
                  b1 # b2 # b3 # r3 \<Rightarrow>
                    if (if a = 0xF0 then 0x90 else 0x80) \<le> unat b1
                         \<and> unat b1 < (if a = 0xF4 then 0x90 else 0xC0) \<and> cont b2 \<and> cont b3
                    then Some ((a - 0xF0) * 262144 + (unat b1 - 0x80) * 4096
                                 + (unat b2 - 0x80) * 64 + (unat b3 - 0x80), r3)
                    else None
                | _ \<Rightarrow> None)
             else None)"

lemma utf8_decode_cp_shorter:
  "utf8_decode_cp bs = Some (c, rest) \<Longrightarrow> length rest < length bs"
  by (auto simp: utf8_decode_cp_def Let_def split: list.splits if_splits)

function utf8_decode :: "byte list \<Rightarrow> error + nat list" where
  "utf8_decode bs =
     (if bs = [] then Inr []
      else case utf8_decode_cp bs of
             None \<Rightarrow> Inl UnicodeDecodeError
           | Some (c, rest) \<Rightarrow> decoded c (utf8_decode rest))"
  by pat_completeness auto
termination
  by (relation "measure length") (auto dest: utf8_decode_cp_shorter)

declare utf8_decode.simps [simp del]


section \<open>The struct module\<close>

text \<open>
  \<^verbatim>\<open>struct.pack\<close> and \<^verbatim>\<open>struct.unpack\<close>, for the format characters the two modules use.
  A format that starts with \<^verbatim>\<open><\<close> is little-endian with standard sizes and no padding.
  A format with no prefix is in native mode: native byte order, and each item aligned to
  its size, as the C compiler of the usual platforms does. Packing a float with
  \<^verbatim>\<open>f\<close> raises \<^verbatim>\<open>OverflowError\<close> in standard mode when the value is too large for
  binary32; native mode stores the infinity that the C conversion gives. Any other
  character in a format is reported as \<^verbatim>\<open>struct.error\<close>.
\<close>

definition fmt_size :: "char \<Rightarrow> nat option" where
  "fmt_size c =
     (if c \<in> set ''?Bb'' then Some 1
      else if c \<in> set ''Hh'' then Some 2
      else if c \<in> set ''Iif'' then Some 4
      else if c \<in> set ''Qqd'' then Some 8
      else None)"

definition fmt_layout :: "string \<Rightarrow> bool \<times> string" where
  "fmt_layout fmt =
     (case fmt of
        [] \<Rightarrow> (True, [])
      | c # cs \<Rightarrow> if c = CHR ''<'' then (False, cs) else (True, c # cs))"

definition align_up :: "nat \<Rightarrow> nat \<Rightarrow> nat" where
  "align_up off s = ((off + s - 1) div s) * s"

definition item_offset :: "bool \<Rightarrow> nat \<Rightarrow> nat \<Rightarrow> nat" where
  "item_offset native off s = (if native then align_up off s else off)"

fun calcsize_items :: "bool \<Rightarrow> string \<Rightarrow> nat \<Rightarrow> nat option" where
  "calcsize_items native [] off = Some off"
| "calcsize_items native (c # cs) off =
     (case fmt_size c of
        None \<Rightarrow> None
      | Some s \<Rightarrow> calcsize_items native cs (item_offset native off s + s))"

definition unpack_item :: "char \<Rightarrow> byte list \<Rightarrow> pyval" where
  "unpack_item c bs =
     (if c = CHR ''?'' then PyBool (le_val bs \<noteq> 0)
      else if c \<in> set ''BHIQ'' then PyInt (int (le_val bs))
      else if c \<in> set ''bhiq'' then PyInt (le_signed bs)
      else if c = CHR ''f'' then PyFloat (f32_to_f64 (word_of_nat (le_val bs)))
      else PyFloat (word_of_nat (le_val bs)))"

fun unpack_items :: "bool \<Rightarrow> string \<Rightarrow> byte list \<Rightarrow> nat \<Rightarrow> pyval list" where
  "unpack_items native [] bs off = []"
| "unpack_items native (c # cs) bs off =
     (let s = (case fmt_size c of None \<Rightarrow> 0 | Some s \<Rightarrow> s);
          pos = item_offset native off s
      in unpack_item c (take s (drop pos bs)) # unpack_items native cs bs (pos + s))"

definition struct_unpack :: "string \<Rightarrow> byte list \<Rightarrow> error + pyval list" where
  "struct_unpack fmt buf =
     (case fmt_layout fmt of (native, cs) \<Rightarrow>
        (case calcsize_items native cs 0 of
           None \<Rightarrow> Inl StructError
         | Some n \<Rightarrow>
             if length buf \<noteq> n then Inl StructError
             else Inr (unpack_items native cs buf 0)))"

definition pack_float :: "pyval \<Rightarrow> (error + 64 word)" where
  "pack_float v =
     (case v of
        PyFloat w \<Rightarrow> Inr w
      | _ \<Rightarrow> (case as_int v of
                None \<Rightarrow> Inl StructError
              | Some n \<Rightarrow> (case float_of_int n of None \<Rightarrow> Inl StructError | Some w \<Rightarrow> Inr w)))"

definition pack_item :: "bool \<Rightarrow> char \<Rightarrow> nat \<Rightarrow> pyval \<Rightarrow> error + byte list" where
  "pack_item native c s v =
     (if c = CHR ''?'' then Inr [if truthy v then 1 else 0]
      else if c \<in> set ''BHIQ'' then
        (case as_int v of
           None \<Rightarrow> Inl StructError
         | Some n \<Rightarrow>
             if 0 \<le> n \<and> n < 2 ^ (8 * s) then Inr (le_bytes s (nat n)) else Inl StructError)
      else if c \<in> set ''bhiq'' then
        (case as_int v of
           None \<Rightarrow> Inl StructError
         | Some n \<Rightarrow>
             if - (2 ^ (8 * s - 1)) \<le> n \<and> n < 2 ^ (8 * s - 1)
             then Inr (le_bytes s (nat (n mod 2 ^ (8 * s))))
             else Inl StructError)
      else if c = CHR ''f'' then
        (case pack_float v of
           Inl e \<Rightarrow> Inl e
         | Inr w \<Rightarrow> (case f64_to_f32 w of
                       None \<Rightarrow>
                         if native then Inr (le_bytes 4 (unat (f32_bits (2 ^ 63 \<le> unat w) 255 0)))
                         else Inl OverflowError
                     | Some x \<Rightarrow> Inr (le_bytes 4 (unat x))))
      else
        (case pack_float v of
           Inl e \<Rightarrow> Inl e
         | Inr w \<Rightarrow> Inr (le_bytes 8 (unat w))))"

fun pack_items :: "bool \<Rightarrow> string \<Rightarrow> pyval list \<Rightarrow> nat \<Rightarrow> error + byte list" where
  "pack_items native (c # cs) (v # vs) off =
     (let s = (case fmt_size c of None \<Rightarrow> 0 | Some s \<Rightarrow> s);
          pos = item_offset native off s
      in case pack_item native c s v of
           Inl e \<Rightarrow> Inl e
         | Inr bs \<Rightarrow>
             (case pack_items native cs vs (pos + s) of
                Inl e \<Rightarrow> Inl e
              | Inr rest \<Rightarrow> Inr (replicate (pos - off) 0 @ bs @ rest)))"
| "pack_items native cs vs off = Inr []"

definition struct_pack :: "string \<Rightarrow> pyval list \<Rightarrow> error + byte list" where
  "struct_pack fmt vs =
     (case fmt_layout fmt of (native, cs) \<Rightarrow>
        (case calcsize_items native cs 0 of
           None \<Rightarrow> Inl StructError
         | Some n \<Rightarrow>
             if length vs \<noteq> length cs then Inl StructError
             else pack_items native cs vs 0))"

section \<open>The format table and the marshaller classes\<close>

text \<open>
  An entry of \<^verbatim>\<open>Table_2904_bytes_format\<close> is the tuple
  \<^verbatim>\<open>(frompython, topython, length, format)\<close>; the two callables are among \<^verbatim>\<open>bool\<close>,
  \<^verbatim>\<open>int\<close>, \<^verbatim>\<open>float\<close>, \<^verbatim>\<open>bytes\<close> and the module's own \<^verbatim>\<open>str2bytes\<close> and
  \<^verbatim>\<open>bytes2str\<close>.
\<close>

datatype callable = F_bool | F_int | F_float | F_bytes | F_str2bytes | F_bytes2str

definition str2bytes :: "pyval \<Rightarrow> error + pyval" where
  "str2bytes s =
     (case s of
        PyStr cs \<Rightarrow> (case utf8_encode cs of Inl e \<Rightarrow> Inl e | Inr bs \<Rightarrow> Inr (PyBytes bs))
      | _ \<Rightarrow> Inl AttributeError)"

definition bytes2str :: "pyval \<Rightarrow> error + pyval" where
  "bytes2str b =
     (case b of
        PyBytes bs \<Rightarrow> (case utf8_decode bs of Inl e \<Rightarrow> Inl e | Inr cs \<Rightarrow> Inr (PyStr cs))
      | _ \<Rightarrow> Inl AttributeError)"

fun call :: "runtime \<Rightarrow> callable \<Rightarrow> pyval \<Rightarrow> error + pyval" where
  "call rt F_bool v = Inr (PyBool (truthy v))"
| "call rt F_int v = py_int rt v"
| "call rt F_float v = py_float rt v"
| "call rt F_bytes v = py_bytes rt v"
| "call rt F_str2bytes v = str2bytes v"
| "call rt F_bytes2str v = bytes2str v"

type_synonym format_entry = "callable \<times> callable \<times> nat option \<times> string option"

text \<open>The table of \<^verbatim>\<open>marshall2904.py\<close>.\<close>

definition Table_2904_bytes_format :: "(int \<times> format_entry) list" where
  "Table_2904_bytes_format =
     [(1, (F_bool, F_bool, Some 1, Some ''<?'')),
      (2, (F_int, F_int, Some 1, Some ''<B'')),
      (3, (F_int, F_int, Some 1, Some ''<B'')),
      (4, (F_int, F_int, Some 1, Some ''<B'')),
      (5, (F_int, F_int, Some 2, Some ''<H'')),
      (6, (F_int, F_int, Some 2, Some ''<H'')),
      (8, (F_int, F_int, Some 4, Some ''<I'')),
      (10, (F_int, F_int, Some 8, Some ''<Q'')),
      (12, (F_int, F_int, Some 1, Some ''<b'')),
      (13, (F_int, F_int, Some 2, Some ''<h'')),
      (14, (F_int, F_int, Some 2, Some ''<h'')),
      (16, (F_int, F_int, Some 4, Some ''<i'')),
      (18, (F_int, F_int, Some 8, Some ''<Q'')),
      (20, (F_float, F_float, Some 4, Some ''<f'')),
      (21, (F_float, F_float, Some 8, Some ''<d'')),
      (25, (F_str2bytes, F_bytes2str, None, None)),
      (27, (F_bytes, F_bytes, None, None))]"

text \<open>The table of \<^verbatim>\<open>characteristic.py\<close>: the same entries, the formats without \<^verbatim>\<open><\<close>.\<close>

definition chr_Table_2904_bytes_format :: "(int \<times> format_entry) list" where
  "chr_Table_2904_bytes_format =
     [(1, (F_bool, F_bool, Some 1, Some ''?'')),
      (2, (F_int, F_int, Some 1, Some ''B'')),
      (3, (F_int, F_int, Some 1, Some ''B'')),
      (4, (F_int, F_int, Some 1, Some ''B'')),
      (5, (F_int, F_int, Some 2, Some ''H'')),
      (6, (F_int, F_int, Some 2, Some ''H'')),
      (8, (F_int, F_int, Some 4, Some ''I'')),
      (10, (F_int, F_int, Some 8, Some ''Q'')),
      (12, (F_int, F_int, Some 1, Some ''b'')),
      (13, (F_int, F_int, Some 2, Some ''h'')),
      (14, (F_int, F_int, Some 2, Some ''h'')),
      (16, (F_int, F_int, Some 4, Some ''i'')),
      (18, (F_int, F_int, Some 8, Some ''Q'')),
      (20, (F_float, F_float, Some 4, Some ''f'')),
      (21, (F_float, F_float, Some 8, Some ''d'')),
      (25, (F_str2bytes, F_bytes2str, None, None)),
      (27, (F_bytes, F_bytes, None, None))]"

text \<open>
  The state of a \<^verbatim>\<open>BleakGATTPackMarshaller\<close>. The field \<^verbatim>\<open>length\<close> is \<open>length'\<close> here.
\<close>

record pack_marshaller =
  frompython :: callable
  topython :: callable
  length' :: "nat option"
  format :: "string option"
  exponent :: int
  unit :: int

text \<open>
  What \<^verbatim>\<open>get_marshaller\<close> returns: an instance of the base class, an instance of the
  pack class, or whatever a constructor registered in \<^verbatim>\<open>Table_uuid_to_marshaller\<close> built.
  The module creates that table empty; callers add entries, so the functions below take
  the table's current content as an argument.
\<close>

datatype 'u marshaller =
    BleakGATTMarshaller
  | BleakGATTPackMarshaller pack_marshaller
  | Registered 'u

type_synonym 'u registry = "string \<rightharpoonup> (unit \<Rightarrow> error + 'u marshaller)"

definition Table_uuid_to_marshaller :: "'u registry" where
  "Table_uuid_to_marshaller = Map.empty"

text \<open>
  The first test of \<^verbatim>\<open>get_marshaller\<close>: \<^verbatim>\<open>if uuid:\<close> (neither \<^verbatim>\<open>None\<close> nor the empty
  string), then \<^verbatim>\<open>if uuid in Table_uuid_to_marshaller:\<close>.
\<close>

definition registered :: "'u registry \<Rightarrow> string option \<Rightarrow> (unit \<Rightarrow> error + 'u marshaller) option" where
  "registered table uuid =
     (case uuid of
        None \<Rightarrow> None
      | Some u \<Rightarrow> if u \<noteq> [] then table u else None)"

text \<open>\<^verbatim>\<open>not self.length\<close> is false exactly for a length that is a number other than 0.\<close>


definition length_truthy :: "nat option \<Rightarrow> bool" where
  "length_truthy l = (case l of None \<Rightarrow> False | Some n \<Rightarrow> n \<noteq> 0)"

subsection \<open>The base class, the same in both modules\<close>

definition BleakGATTMarshaller_marshall :: "runtime \<Rightarrow> pyval \<Rightarrow> error + pyval" where
  "BleakGATTMarshaller_marshall rt data = py_bytes rt data"

definition BleakGATTMarshaller_unmarshall :: "byte list \<Rightarrow> error + pyval" where
  "BleakGATTMarshaller_unmarshall data_bytes = Inr (PyBytes data_bytes)"

text \<open>The two runtime calls with the object's \<^verbatim>\<open>format\<close>, which is \<^verbatim>\<open>None\<close> for text and opaque entries.\<close>

definition pack_with :: "string option \<Rightarrow> pyval \<Rightarrow> error + byte list" where
  "pack_with fmt v = (case fmt of None \<Rightarrow> Inl TypeError | Some f \<Rightarrow> struct_pack f [v])"

definition unpack_with :: "string option \<Rightarrow> byte list \<Rightarrow> error + pyval list" where
  "unpack_with fmt buf = (case fmt of None \<Rightarrow> Inl TypeError | Some f \<Rightarrow> struct_unpack f buf)"

subsection \<open>marshall2904.py\<close>

text \<open>
  The names bound in the module when a method runs: its imports (\<^verbatim>\<open>abc\<close>, \<^verbatim>\<open>enum\<close>,
  \<^verbatim>\<open>UUID\<close>, \<^verbatim>\<open>List\<close>, \<^verbatim>\<open>Union\<close>, \<^verbatim>\<open>Any\<close>, \<^verbatim>\<open>struct\<close>) and its definitions,
  then the builtins it uses. Reading any other global name raises \<^verbatim>\<open>NameError\<close>.
\<close>

definition m2904_globals :: "string list" where
  "m2904_globals =
     [''abc'', ''enum'', ''UUID'', ''List'', ''Union'', ''Any'', ''struct'',
      ''str2bytes'', ''bytes2str'', ''Table_2904_bytes_format'', ''Table_uuid_to_marshaller'',
      ''BleakGATTMarshaller'', ''BleakGATTPackMarshaller'']"

definition builtins :: "string list" where
  "builtins = [''bool'', ''int'', ''float'', ''bytes'', ''len'', ''print'']"

definition load_global :: "string list \<Rightarrow> string \<Rightarrow> error + unit" where
  "load_global globals name =
     (if name \<in> set globals \<or> name \<in> set builtins then Inr () else Inl NameError)"

text \<open>
  \<^verbatim>\<open>__init__\<close>: with an exponent other than 0 it prints a warning to \<^verbatim>\<open>sys.stderr\<close>,
  for which it reads the global \<^verbatim>\<open>sys\<close>.
\<close>

definition m2904_init :: "format_entry \<Rightarrow> int \<Rightarrow> int \<Rightarrow> error + pack_marshaller" where
  "m2904_init fmt e u =
     (case fmt of (fp, tp, len, f) \<Rightarrow>
        (case (if e \<noteq> 0 then load_global m2904_globals ''sys'' else Inr ()) of
           Inl err \<Rightarrow> Inl err
         | Inr _ \<Rightarrow>
             Inr \<lparr>frompython = fp, topython = tp, length' = len, format = f,
                  exponent = e, unit = u\<rparr>))"

definition m2904_marshall :: "runtime \<Rightarrow> pack_marshaller \<Rightarrow> pyval \<Rightarrow> error + pyval" where
  "m2904_marshall rt self data =
     (if \<not> length_truthy (length' self) then call rt (frompython self) data
      else
        case (if 0 < exponent self then py_truediv data (PyInt (10 ^ nat (exponent self)))
              else if exponent self < 0 then py_mul rt data (PyInt (10 ^ nat (- exponent self)))
              else Inr data) of
          Inl e \<Rightarrow> Inl e
        | Inr scaled \<Rightarrow>
            (case call rt (frompython self) scaled of
               Inl e \<Rightarrow> Inl e
             | Inr native \<Rightarrow>
                 (case pack_with (format self) native of
                    Inl e \<Rightarrow> Inl e
                  | Inr data_bytes \<Rightarrow>
                      if Some (length data_bytes) = length' self then Inr (PyBytes data_bytes)
                      else Inl AssertionError)))"

definition m2904_unmarshall :: "runtime \<Rightarrow> pack_marshaller \<Rightarrow> byte list \<Rightarrow> error + pyval" where
  "m2904_unmarshall rt self data_bytes =
     (if \<not> length_truthy (length' self) then call rt (topython self) (PyBytes data_bytes)
      else if Some (length data_bytes) \<noteq> length' self then Inl AssertionError
      else
        case unpack_with (format self) data_bytes of
          Inl e \<Rightarrow> Inl e
        | Inr [item] \<Rightarrow>
            (case call rt (topython self) item of
               Inl e \<Rightarrow> Inl e
             | Inr data \<Rightarrow>
                 if exponent self \<noteq> 0 then
                   (case pow10 rt (exponent self) of
                      Inl e \<Rightarrow> Inl e
                    | Inr p \<Rightarrow> py_mul rt data (PyFloat p))
                 else Inr data)
        | Inr _ \<Rightarrow> Inl ValueError)"

text \<open>
  \<^verbatim>\<open>get_marshaller(klass, client, descr_2904, uuid)\<close>. The descriptor object is known by
  its handle; \<open>client h\<close> is what awaiting \<^verbatim>\<open>client.read_gatt_descriptor(h)\<close> gives.
\<close>

definition m2904_get_marshaller ::
  "'u registry \<Rightarrow> (nat \<Rightarrow> error + byte list) \<Rightarrow> nat option \<Rightarrow> string option \<Rightarrow> error + 'u marshaller"
where
  "m2904_get_marshaller table client descr_2904 uuid =
     (case registered table uuid of
        Some constructor \<Rightarrow> constructor ()
      | None \<Rightarrow>
          (case descr_2904 of
             None \<Rightarrow> Inr BleakGATTMarshaller
           | Some handle \<Rightarrow>
               (case client handle of
                  Inl e \<Rightarrow> Inl e
                | Inr descr_2904_data \<Rightarrow>
                    (case struct_unpack ''<BbHBH'' descr_2904_data of
                       Inl e \<Rightarrow> Inl e
                     | Inr [PyInt fmt, PyInt e, PyInt u, namespace, description] \<Rightarrow>
                         (case map_of Table_2904_bytes_format fmt of
                            None \<Rightarrow> Inr BleakGATTMarshaller
                          | Some entry \<Rightarrow>
                              (case m2904_init entry e u of
                                 Inl err \<Rightarrow> Inl err
                               | Inr self \<Rightarrow> Inr (BleakGATTPackMarshaller self)))
                     | Inr _ \<Rightarrow> Inl ValueError))))"

subsection \<open>characteristic.py\<close>

text \<open>
  The same two classes as the module-level code of \<^verbatim>\<open>characteristic.py\<close> has them.
  \<^verbatim>\<open>get_marshaller\<close> takes the descriptor's bytes themselves, tests them with
  \<^verbatim>\<open>if descr_2904:\<close>, unpacks them in native mode and hands the format code, not the table
  entry, to the constructor, whose first statement unpacks its argument into four fields.
  \<^verbatim>\<open>marshall\<close> and \<^verbatim>\<open>unmarshall\<close> leave the exponent alone, and \<^verbatim>\<open>unmarshall\<close>
  returns the tuple that \<^verbatim>\<open>struct.unpack\<close> gives (its debugging \<^verbatim>\<open>print\<close> is left out).
\<close>

datatype init_arg = FormatCode int | FormatEntry format_entry

definition chr_init :: "init_arg \<Rightarrow> int \<Rightarrow> int \<Rightarrow> error + pack_marshaller" where
  "chr_init fmt e u =
     (case fmt of
        FormatCode n \<Rightarrow> Inl TypeError
      | FormatEntry (fp, tp, len, f) \<Rightarrow>
          Inr \<lparr>frompython = fp, topython = tp, length' = len, format = f,
               exponent = e, unit = u\<rparr>)"

definition chr_marshall :: "runtime \<Rightarrow> pack_marshaller \<Rightarrow> pyval \<Rightarrow> error + pyval" where
  "chr_marshall rt self data =
     (if \<not> length_truthy (length' self) then call rt (frompython self) data
      else
        case call rt (frompython self) data of
          Inl e \<Rightarrow> Inl e
        | Inr native \<Rightarrow>
            (case pack_with (format self) native of
               Inl e \<Rightarrow> Inl e
             | Inr data_bytes \<Rightarrow>
                 if Some (length data_bytes) = length' self then Inr (PyBytes data_bytes)
                 else Inl AssertionError))"

definition chr_unmarshall :: "runtime \<Rightarrow> pack_marshaller \<Rightarrow> byte list \<Rightarrow> error + pyval" where
  "chr_unmarshall rt self data_bytes =
     (if \<not> length_truthy (length' self) then call rt (topython self) (PyBytes data_bytes)
      else if Some (length data_bytes) \<noteq> length' self then Inl AssertionError
      else
        case unpack_with (format self) data_bytes of
          Inl e \<Rightarrow> Inl e
        | Inr data \<Rightarrow> Inr (PyTuple data))"

definition chr_get_marshaller ::
  "'u registry \<Rightarrow> byte list option \<Rightarrow> string option \<Rightarrow> error + 'u marshaller"
where
  "chr_get_marshaller table descr_2904 uuid =
     (case registered table uuid of
        Some constructor \<Rightarrow> constructor ()
      | None \<Rightarrow>
          (case descr_2904 of
             None \<Rightarrow> Inr BleakGATTMarshaller
           | Some buf \<Rightarrow>
               if buf = [] then Inr BleakGATTMarshaller
               else
                 (case struct_unpack ''BbHBH'' buf of
                    Inl e \<Rightarrow> Inl e
                  | Inr [PyInt fmt, PyInt e, PyInt u, namespace, description] \<Rightarrow>
                      (case map_of chr_Table_2904_bytes_format fmt of
                         None \<Rightarrow> Inr BleakGATTMarshaller
                       | Some entry \<Rightarrow>
                           (case chr_init (FormatCode fmt) e u of
                              Inl err \<Rightarrow> Inl err
                            | Inr self \<Rightarrow> Inr (BleakGATTPackMarshaller self)))
                  | Inr _ \<Rightarrow> Inl ValueError)))"

subsection \<open>A value through a codec and back\<close>

definition m2904_unmarshall_marshall :: "runtime \<Rightarrow> pack_marshaller \<Rightarrow> byte list \<Rightarrow> error + pyval" where
  "m2904_unmarshall_marshall rt self data_bytes =
     (case m2904_unmarshall rt self data_bytes of
        Inl e \<Rightarrow> Inl e
      | Inr v \<Rightarrow> m2904_marshall rt self v)"

text \<open>The pack marshaller that \<^verbatim>\<open>get_marshaller\<close> of \<^verbatim>\<open>marshall2904.py\<close> builds from descriptor bytes.\<close>

definition m2904_codec_of :: "byte list \<Rightarrow> pack_marshaller option" where
  "m2904_codec_of descr =
     (case m2904_get_marshaller (Table_uuid_to_marshaller :: unit registry) (\<lambda>h. Inr descr) (Some 0) None of
        Inr (BleakGATTPackMarshaller self) \<Rightarrow> Some self
      | _ \<Rightarrow> None)"

section \<open>Evaluation rules\<close>

lemma m2904_init_eq:
  "m2904_init (fp, tp, len, f) e u =
     (if e = 0
      then Inr \<lparr>frompython = fp, topython = tp, length' = len, format = f, exponent = 0, unit = u\<rparr>
      else Inl NameError)"
  by (simp add: m2904_init_def load_global_def m2904_globals_def builtins_def)

lemmas struct_eval =
  struct_unpack_def struct_pack_def fmt_layout_def fmt_size_def item_offset_def align_up_def
  unpack_item_def pack_item_def pack_float_def le_signed_def unpack_with_def pack_with_def

lemmas m2904_eval =
  m2904_codec_of_def m2904_get_marshaller_def registered_def Table_2904_bytes_format_def
  m2904_init_eq m2904_unmarshall_def m2904_marshall_def length_truthy_def

lemmas chr_eval =
  chr_get_marshaller_def registered_def chr_Table_2904_bytes_format_def chr_init_def
  chr_unmarshall_def chr_marshall_def length_truthy_def

lemma le_bytes_numeral:
  "le_bytes (numeral k) n = word_of_nat (n mod 256) # le_bytes (pred_numeral k) (n div 256)"
proof -
  have "le_bytes (Suc (pred_numeral k)) n
          = word_of_nat (n mod 256) # le_bytes (pred_numeral k) (n div 256)"
    by (rule le_bytes.simps)
  then show ?thesis
    by (simp only: numeral_eq_Suc [symmetric])
qed

section \<open>Little-endian bytes and single-item formats\<close>








lemma length_le_bytes: "length (le_bytes k n) = k"
  by (induction k arbitrary: n) simp_all












section \<open>The descriptor layout\<close>

lemma struct_unpack_descriptor_length:
  "length buf \<noteq> 7 \<Longrightarrow> struct_unpack ''<BbHBH'' buf = Inl StructError"
  by (simp add: struct_unpack_def fmt_layout_def fmt_size_def item_offset_def)

lemma struct_unpack_descriptor_fields:
  "struct_unpack ''<BbHBH'' [b0, b1, b2, b3, b4, b5, b6] =
     Inr [PyInt (int (unat b0)),
          PyInt (if unat b1 < 128 then int (unat b1) else int (unat b1) - 256),
          PyInt (int (unat b2 + 256 * unat b3)),
          PyInt (int (unat b4)),
          PyInt (int (unat b5 + 256 * unat b6))]"
  by (simp add: struct_eval)

lemma m2904_descriptor_wrong_length:
  assumes "registered table uuid = None" and "client handle = Inr buf" and "length buf \<noteq> 7"
  shows "m2904_get_marshaller table client (Some handle) uuid = Inl StructError"
  using assms by (simp add: m2904_get_marshaller_def struct_unpack_descriptor_length)

section \<open>The length check of characteristic.py\<close>

lemma chr_unmarshall_length:
  assumes "map_of chr_Table_2904_bytes_format code = Some entry"
    and "chr_init (FormatEntry entry) e u = Inr self"
    and "length' self = Some w"
  shows "(chr_unmarshall rt self data_bytes = Inl AssertionError) = (length data_bytes \<noteq> w)"
    and "(\<exists>v. chr_unmarshall rt self data_bytes = Inr v) = (length data_bytes = w)"
  using assms
  by (auto simp: chr_Table_2904_bytes_format_def chr_init_def chr_unmarshall_def length_truthy_def
      struct_eval Let_def split: if_splits)

section \<open>Float arithmetic at the values of the examples\<close>












section \<open>UTF-8: decoding what was encoded\<close>













section \<open>The claims\<close>

text \<open>
  C1. The claim: resolving a codec from the descriptor bytes \<^verbatim>\<open>06 FE 00 00 00 00 00\<close>
  (format 6, exponent -2) succeeds, and unmarshalling \<^verbatim>\<open>E8 03\<close> with it gives 10.00.

  In \<^verbatim>\<open>marshall2904.py\<close> the resolution does not succeed. The descriptor parses and
  format 6 is in the table, but the constructor, finding an exponent other than 0, prints
  a warning to \<^verbatim>\<open>sys.stderr\<close>, and the module never imports \<^verbatim>\<open>sys\<close>: the call
  raises \<^verbatim>\<open>NameError\<close>, whatever the registry holds and whichever descriptor handle is
  read.
\<close>

theorem C1_resolve_raises_NameError:
  "m2904_get_marshaller table (\<lambda>h. Inr [0x06, 0xFE, 0, 0, 0, 0, 0]) (Some handle) None
     = Inl NameError"
  by (simp add: m2904_eval struct_eval)

text \<open>
  C2. The claim: with the descriptor bytes \<^verbatim>\<open>06 00 00 00 00 00 00\<close> (format 6,
  exponent 0), unmarshalling \<^verbatim>\<open>E8 03\<close> gives the integer 1000, a single scalar.

  \<^verbatim>\<open>marshall2904.py\<close> does so: \<^verbatim>\<open>get_marshaller\<close> builds the pack marshaller for
  \<^verbatim>\<open><H\<close>, whose \<^verbatim>\<open>unmarshall\<close> returns \<open>PyInt 1000\<close>. \<^verbatim>\<open>characteristic.py\<close> does
  not: its \<^verbatim>\<open>get_marshaller\<close> rejects the seven bytes (native mode wants eight), with
  eight bytes it hands the format code to the constructor, which raises \<^verbatim>\<open>TypeError\<close>,
  and its \<^verbatim>\<open>unmarshall\<close>, on a marshaller built from the table entry by hand, returns the
  one-element tuple \<open>(1000,)\<close>.
\<close>

theorem C2_scalar_1000:
  "m2904_codec_of [0x06, 0, 0, 0, 0, 0, 0]
     = Some \<lparr>frompython = F_int, topython = F_int, length' = Some 2, format = Some ''<H'',
              exponent = 0, unit = 0\<rparr>
   \<and> m2904_unmarshall rt \<lparr>frompython = F_int, topython = F_int, length' = Some 2,
          format = Some ''<H'', exponent = 0, unit = 0\<rparr> [0xE8, 0x03] = Inr (PyInt 1000)
   \<and> chr_get_marshaller table (Some [0x06, 0, 0, 0, 0, 0, 0]) None = Inl StructError
   \<and> chr_get_marshaller table (Some [0x06, 0, 0, 0, 0, 0, 0, 0]) None = Inl TypeError
   \<and> chr_init (FormatEntry (F_int, F_int, Some 2, Some ''H'')) 0 0
       = Inr \<lparr>frompython = F_int, topython = F_int, length' = Some 2, format = Some ''H'',
              exponent = 0, unit = 0\<rparr>
   \<and> chr_unmarshall rt \<lparr>frompython = F_int, topython = F_int, length' = Some 2,
          format = Some ''H'', exponent = 0, unit = 0\<rparr> [0xE8, 0x03]
       = Inr (PyTuple [PyInt 1000])"
  by (simp add: m2904_eval chr_eval struct_eval)

text \<open>
  C3. For a registered UUID (a non-empty string, so that \<^verbatim>\<open>if uuid:\<close> holds) and any
  descriptor, well-formed or not, \<^verbatim>\<open>get_marshaller\<close> returns what the registered
  zero-argument constructor returns. Neither the client nor the descriptor takes part in
  the result; both modules agree.
\<close>

theorem C3_registry_first:
  assumes "table u = Some constructor" and "u \<noteq> []"
  shows "m2904_get_marshaller table client descr_2904 (Some u) = constructor ()
         \<and> chr_get_marshaller table descr_bytes (Some u) = constructor ()"
  using assms by (simp add: m2904_get_marshaller_def chr_get_marshaller_def registered_def)

theorem C3_registry_first_witness:
  "m2904_get_marshaller
      [''00002a19-0000-1000-8000-00805f9b34fb'' \<mapsto> (\<lambda>_. Inr (Registered (7::nat)))]
      (\<lambda>h. Inr [1, 2, 3]) (Some 0) (Some ''00002a19-0000-1000-8000-00805f9b34fb'')
     = Inr (Registered 7)
   \<and> chr_get_marshaller
      [''00002a19-0000-1000-8000-00805f9b34fb'' \<mapsto> (\<lambda>_. Inr (Registered (7::nat)))]
      (Some [1, 2, 3]) (Some ''00002a19-0000-1000-8000-00805f9b34fb'')
     = Inr (Registered 7)"
  using C3_registry_first
    [of "[''00002a19-0000-1000-8000-00805f9b34fb'' \<mapsto> (\<lambda>_. Inr (Registered (7::nat)))]"
      "''00002a19-0000-1000-8000-00805f9b34fb''" "\<lambda>_. Inr (Registered (7::nat))"
      "\<lambda>h. Inr [1, 2, 3]" "Some 0" "Some [1, 2, 3]"]
  by simp



text \<open>
  The 32-bit float format 20 loses a signalling NaN in the same way: unpacking widens the
  four bytes to a \<^verbatim>\<open>double\<close>, which makes the NaN quiet, and \<^verbatim>\<open>01 00 80 7F\<close> comes
  back as \<^verbatim>\<open>01 00 C0 7F\<close>.
\<close>

lemma format_20_signalling_nan:
  "m2904_unmarshall_marshall rt \<lparr>frompython = F_float, topython = F_float, length' = Some 4,
      format = Some ''<f'', exponent = 0, unit = 0\<rparr> [0x01, 0x00, 0x80, 0x7F]
     = Inr (PyBytes [0x01, 0x00, 0xC0, 0x7F])"
  by (simp add: m2904_eval struct_eval m2904_unmarshall_marshall_def f32_to_f64_def f64_to_f32_def
      f64_quiet_def f64_bits_def f32_bits_def f64_decode_def le_bytes_numeral)




text \<open>
  C7. The claim: every signed format (12, 14, 16, 18) reads its bytes as a little-endian
  two's-complement integer and packs negative values; for format 18, the eight bytes
  \<^verbatim>\<open>FF\<close> unmarshal to -1 and marshalling -1 succeeds.

  The table gives format 18 (commented ``64-bit int'') the unsigned format \<^verbatim>\<open>Q\<close>, where
  12, 14 and 16 have the signed \<^verbatim>\<open>b\<close>, \<^verbatim>\<open>h\<close> and \<^verbatim>\<open>i\<close>. So the eight bytes
  \<^verbatim>\<open>FF\<close> unmarshal to \<open>2^64 - 1\<close>, and marshalling -1 raises \<^verbatim>\<open>struct.error\<close>.
\<close>

theorem C7_format_18_is_unsigned:
  "m2904_codec_of [18, 0, 0, 0, 0, 0, 0]
     = Some \<lparr>frompython = F_int, topython = F_int, length' = Some 8, format = Some ''<Q'',
              exponent = 0, unit = 0\<rparr>
   \<and> m2904_unmarshall rt \<lparr>frompython = F_int, topython = F_int, length' = Some 8,
          format = Some ''<Q'', exponent = 0, unit = 0\<rparr>
          [0xFF, 0xFF, 0xFF, 0xFF, 0xFF, 0xFF, 0xFF, 0xFF] = Inr (PyInt 18446744073709551615)
   \<and> m2904_marshall rt \<lparr>frompython = F_int, topython = F_int, length' = Some 8,
          format = Some ''<Q'', exponent = 0, unit = 0\<rparr> (PyInt (- 1)) = Inl StructError"
  by (simp add: m2904_eval struct_eval)





text \<open>
  C10. The claim: the base class's \<^verbatim>\<open>marshall\<close> is \<^verbatim>\<open>bytes(data)\<close>; a byte string
  comes back equal, and every non-negative integer \<open>n\<close> gives \<open>n\<close> zero bytes.

  Not every one: \<^verbatim>\<open>bytes(2**63)\<close> raises \<^verbatim>\<open>OverflowError\<close>, however much memory there is.
\<close>

theorem C10_identity_marshall_counterexample:
  "\<forall>rt. BleakGATTMarshaller_marshall rt (PyInt (2 ^ 63)) = Inl OverflowError"
  by (simp add: BleakGATTMarshaller_marshall_def bytes_of_count_def index_sized_def
      sys_maxsize_def)

text \<open>
  C10, as amended. \<^verbatim>\<open>marshall\<close> returns a byte string as it is, and it returns its
  argument unchanged only when the argument is a byte string. For an integer \<open>n\<close> from 0
  to \<open>2^63 - 34\<close> it returns \<open>n\<close> zero bytes, not an encoding of \<open>n\<close>, when memory allows
  and raises \<^verbatim>\<open>MemoryError\<close> when it does not; for a larger \<open>n\<close> it raises
  \<^verbatim>\<open>OverflowError\<close>.
\<close>

theorem C10_identity_marshall_amended:
  "BleakGATTMarshaller_marshall rt (PyBytes bs) = Inr (PyBytes bs)
   \<and> (BleakGATTMarshaller_marshall rt data = Inr data) = (\<exists>bs. data = PyBytes bs)
   \<and> (0 \<le> n \<and> n \<le> 2 ^ 63 - 34 \<and> can_allocate rt (nat n)
        \<longrightarrow> BleakGATTMarshaller_marshall rt (PyInt n) = Inr (PyBytes (replicate (nat n) 0)))
   \<and> (0 \<le> n \<and> n \<le> 2 ^ 63 - 34 \<and> \<not> can_allocate rt (nat n)
        \<longrightarrow> BleakGATTMarshaller_marshall rt (PyInt n) = Inl MemoryError)
   \<and> (2 ^ 63 - 34 < n \<longrightarrow> BleakGATTMarshaller_marshall rt (PyInt n) = Inl OverflowError)"
proof -
  have "(py_bytes rt data = Inr data) = (\<exists>bs. data = PyBytes bs)"
    by (cases data) (auto simp: bytes_of_count_def split: sum.splits if_splits)
  then show ?thesis
    by (simp add: BleakGATTMarshaller_marshall_def bytes_of_count_def index_sized_def
        sys_maxsize_def bytes_header_def)
qed

theorem C10_identity_marshall_amended_witness:
  "BleakGATTMarshaller_marshall
      \<lparr>pow10 = (\<lambda>e. Inl OverflowError), int_of_str = (\<lambda>s. Inl ValueError),
         int_of_bytes = (\<lambda>b. Inl ValueError), float_of_str = (\<lambda>s. Inl ValueError),
         float_of_bytes = (\<lambda>b. Inl ValueError), can_allocate = (\<lambda>k. k < 2 ^ 32)\<rparr>
      (PyInt 3) = Inr (PyBytes [0, 0, 0])
   \<and> BleakGATTMarshaller_marshall
      \<lparr>pow10 = (\<lambda>e. Inl OverflowError), int_of_str = (\<lambda>s. Inl ValueError),
         int_of_bytes = (\<lambda>b. Inl ValueError), float_of_str = (\<lambda>s. Inl ValueError),
         float_of_bytes = (\<lambda>b. Inl ValueError), can_allocate = (\<lambda>k. k < 2 ^ 32)\<rparr>
      (PyInt (2 ^ 32)) = Inl MemoryError
   \<and> BleakGATTMarshaller_marshall
      \<lparr>pow10 = (\<lambda>e. Inl OverflowError), int_of_str = (\<lambda>s. Inl ValueError),
         int_of_bytes = (\<lambda>b. Inl ValueError), float_of_str = (\<lambda>s. Inl ValueError),
         float_of_bytes = (\<lambda>b. Inl ValueError), can_allocate = (\<lambda>k. k < 2 ^ 32)\<rparr>
      (PyInt (2 ^ 63 - 33)) = Inl OverflowError"
  using C10_identity_marshall_amended
      [of "\<lparr>pow10 = (\<lambda>e. Inl OverflowError), int_of_str = (\<lambda>s. Inl ValueError),
         int_of_bytes = (\<lambda>b. Inl ValueError), float_of_str = (\<lambda>s. Inl ValueError),
         float_of_bytes = (\<lambda>b. Inl ValueError), can_allocate = (\<lambda>k. k < 2 ^ 32)\<rparr>"
        "[]" PyNone 3]
    C10_identity_marshall_amended
      [of "\<lparr>pow10 = (\<lambda>e. Inl OverflowError), int_of_str = (\<lambda>s. Inl ValueError),
         int_of_bytes = (\<lambda>b. Inl ValueError), float_of_str = (\<lambda>s. Inl ValueError),
         float_of_bytes = (\<lambda>b. Inl ValueError), can_allocate = (\<lambda>k. k < 2 ^ 32)\<rparr>"
        "[]" PyNone "2 ^ 32"]
    C10_identity_marshall_amended
      [of "\<lparr>pow10 = (\<lambda>e. Inl OverflowError), int_of_str = (\<lambda>s. Inl ValueError),
         int_of_bytes = (\<lambda>b. Inl ValueError), float_of_str = (\<lambda>s. Inl ValueError),
         float_of_bytes = (\<lambda>b. Inl ValueError), can_allocate = (\<lambda>k. k < 2 ^ 32)\<rparr>"
        "[]" PyNone "2 ^ 63 - 33"]
  by (simp add: numeral_3_eq_3)

end
